theory Spec2Isabelle
  imports Main "HOL-Library.AList" "HOL-Library.Sublist" "HOL-Library.Multiset"
begin

section \<open>The multi-session messaging server (src/server.js)\<close>

text \<open>
  The server keeps one JavaScript object, \<^verbatim>\<open>sessions\<close>, whose property names are session
  ids and whose values are either \<^verbatim>\<open>null\<close> or an object \<^verbatim>\<open>{client, latestQR, isReady}\<close>.
  Node runs every handler to its next \<^verbatim>\<open>await\<close> without interruption, and other handlers run
  while it waits. A handler that reads or writes \<^verbatim>\<open>sessions\<close> after an \<^verbatim>\<open>await\<close> in a way
  that depends on what ran meanwhile is split there: \<^verbatim>\<open>setupSession\<close> and the \<^verbatim>\<open>qr\<close> listener
  have two parts, and the broadcast loop takes what runs during its awaits as a
  parameter. Every other handler is one function from the state of the process to a
  reply and the next state.
  The collaborators (the messaging client, the message collection, the credential
  collection) are parameters of the model: a record \<open>env\<close> says, for each call, whether
  it resolves or rejects.

  A session id is any string. \<^verbatim>\<open>sessions\<close> is a plain object, so the id \<^verbatim>\<open>__proto__\<close> is not
  stored as a property: assigning to it replaces the prototype of \<^verbatim>\<open>sessions\<close>. The prototype
  is therefore part of the state.
\<close>

subsection \<open>Data\<close>

text \<open>A session object. The client is represented by a handle, the number of clients
  constructed before it.\<close>

record session =
  client :: nat
  latestQR :: "string option"
  isReady :: bool

text \<open>
  The object \<^verbatim>\<open>sessions\<close>: its own properties in creation order (\<open>None\<close> is the value
  \<^verbatim>\<open>null\<close>) and its prototype. The prototype is \<^verbatim>\<open>Object.prototype\<close> at start-up; an
  assignment to \<^verbatim>\<open>sessions["__proto__"]\<close> makes it the assigned session object or, for
  \<^verbatim>\<open>null\<close>, removes it.
\<close>

datatype proto = ObjectPrototype | SessionProto session | NullProto

record registry =
  own :: "(string \<times> session option) list"
  prototype :: proto

text \<open>
  What \<^verbatim>\<open>sessions[k]\<close> evaluates to. \<open>Other\<close> stands for every value that is neither
  \<^verbatim>\<open>undefined\<close>, \<^verbatim>\<open>null\<close> nor a session object: \<^verbatim>\<open>Object.prototype\<close>, one of its functions,
  and what is inherited from a session object that is the prototype (its client object,
  its \<^verbatim>\<open>latestQR\<close> string, its \<^verbatim>\<open>isReady\<close> boolean). Such a value is taken to have no
  property named \<^verbatim>\<open>client\<close>, \<^verbatim>\<open>latestQR\<close> or \<^verbatim>\<open>isReady\<close> (for the client object, whose class
  is the messaging library's, this is an assumption).
\<close>

datatype val = Undefined | Null | SessionObj session | Other

text \<open>A document of the \<^verbatim>\<open>Message\<close> collection.\<close>

record message =
  msg_sessionId :: string
  msg_from :: string
  msg_to :: string
  msg_text :: string
  msg_time :: nat

text \<open>What \<^verbatim>\<open>io.to(room).emit\<close> and \<^verbatim>\<open>socket.emit\<close> send.\<close>

datatype push =
    EmitQr string
  | EmitReady
  | EmitMessage string string nat
  | EmitDisconnected

text \<open>Calls made on the messaging library.\<close>

datatype call =
    NewClient nat string
  | Initialize nat
  | SendMessage nat string string
  | Logout nat
  | Destroy nat

text \<open>The behaviour of the collaborators. \<open>sendMessage\<close> resolves with the serialized
  message id (\<open>Inr\<close>) or rejects with an error message (\<open>Inl\<close>); the others resolve
  (\<open>None\<close>) or reject with an error message.\<close>

record env =
  sendMessage :: "nat \<Rightarrow> string \<Rightarrow> string \<Rightarrow> string + string"
  create :: "message \<Rightarrow> string option"
  initialize :: "nat \<Rightarrow> string option"
  logout :: "nat \<Rightarrow> string option"
  destroy :: "nat \<Rightarrow> string option"
  deleteMany :: "string \<Rightarrow> string option"

record world =
  sessions :: registry
  next_client :: nat
  messages :: "message list"
  emitted :: "(string \<times> push) list"
  calls :: "call list"

text \<open>How a handler ends: an exception is either a \<^verbatim>\<open>TypeError\<close> raised by a property
  access on \<^verbatim>\<open>null\<close> or \<^verbatim>\<open>undefined\<close>, or the rejection of a collaborator's promise.\<close>

datatype error = TypeError | Rejected string

datatype outcome = Returned | Threw error

text \<open>What an HTTP handler answers. \<open>Unhandled\<close>: the handler's promise rejected before
  any response was written; the state returned with it is the state at that moment (what
  the runtime does with the rejection is not modelled).\<close>

datatype reply =
    SendOk string
  | Success string
  | Failure nat string
  | Unhandled error

text \<open>A handler \<open>answered\<close> when it wrote a response; the response reports success when
  it is one of the two \<^verbatim>\<open>success: true\<close> bodies.\<close>

fun answered :: "reply \<Rightarrow> bool" where
  "answered (Unhandled err) = False"
| "answered _ = True"

fun succeeded :: "reply \<Rightarrow> bool" where
  "succeeded (SendOk messageId) = True"
| "succeeded (Success text) = True"
| "succeeded _ = False"

text \<open>One element of the array that the broadcast route answers.\<close>

datatype result =
    Sent string string
  | Failed string string


subsection \<open>The \<^verbatim>\<open>sessions\<close> object\<close>

text \<open>The names \<^verbatim>\<open>Object.prototype\<close> defines besides the accessor \<^verbatim>\<open>__proto__\<close>.\<close>

definition object_prototype_names :: "string list" where
  "object_prototype_names =
     [''constructor'', ''__defineGetter__'', ''__defineSetter__'', ''hasOwnProperty'',
      ''__lookupGetter__'', ''__lookupSetter__'', ''isPrototypeOf'',
      ''propertyIsEnumerable'', ''toString'', ''valueOf'', ''toLocaleString'']"

text \<open>
  Reading a name that is not an own property goes to the prototype chain. The getter of
  \<^verbatim>\<open>__proto__\<close> answers the prototype itself; a session object that is the prototype lends
  its three fields, and behind it stands \<^verbatim>\<open>Object.prototype\<close>.
\<close>

definition inherited :: "registry \<Rightarrow> string \<Rightarrow> val" where
  "inherited r k =
     (case prototype r of
        NullProto \<Rightarrow> Undefined
      | ObjectPrototype \<Rightarrow>
          if k = ''__proto__'' \<or> k \<in> set object_prototype_names then Other else Undefined
      | SessionProto s \<Rightarrow>
          if k = ''__proto__'' then SessionObj s
          else if k = ''client'' then Other
          else if k = ''latestQR'' then (case latestQR s of None \<Rightarrow> Null | Some qr \<Rightarrow> Other)
          else if k = ''isReady'' then Other
          else if k \<in> set object_prototype_names then Other
          else Undefined)"

definition js_get :: "registry \<Rightarrow> string \<Rightarrow> val" where
  "js_get r k =
     (case map_of (own r) k of
        Some (Some s) \<Rightarrow> SessionObj s
      | Some None \<Rightarrow> Null
      | None \<Rightarrow> inherited r k)"

text \<open>\<^verbatim>\<open>sessions[k]\<close> as the optional chains of the source see it: \<open>Some (Some s)\<close> for a
  session object, \<open>Some None\<close> for \<^verbatim>\<open>null\<close>, \<open>None\<close> for \<^verbatim>\<open>undefined\<close> and for a value that
  has none of the three fields.\<close>

definition lookup :: "registry \<Rightarrow> string \<Rightarrow> session option option" where
  "lookup r k =
     (case js_get r k of
        SessionObj s \<Rightarrow> Some (Some s)
      | Null \<Rightarrow> Some None
      | _ \<Rightarrow> None)"

text \<open>
  \<^verbatim>\<open>sessions[k] = v\<close>. When \<open>k\<close> is \<^verbatim>\<open>__proto__\<close>, is not an own property and the prototype
  chain still reaches \<^verbatim>\<open>Object.prototype\<close>, the inherited setter runs and \<open>v\<close> becomes the
  prototype. In every other case the own property \<open>k\<close> is written: an existing key keeps
  its position, a new one is appended.

  \<^verbatim>\<open>delete sessions[k]\<close> removes the own property \<open>k\<close> and never touches the prototype.
\<close>

definition sets_prototype :: "registry \<Rightarrow> string \<Rightarrow> bool" where
  "sets_prototype r k =
     (k = ''__proto__'' \<and> map_of (own r) k = None \<and> prototype r \<noteq> NullProto)"

definition assign :: "registry \<Rightarrow> string \<Rightarrow> session option \<Rightarrow> registry" where
  "assign r k v =
     (if sets_prototype r k
      then r\<lparr>prototype := (case v of Some s \<Rightarrow> SessionProto s | None \<Rightarrow> NullProto)\<rparr>
      else r\<lparr>own := AList.update k v (own r)\<rparr>)"

definition delete_key :: "registry \<Rightarrow> string \<Rightarrow> registry" where
  "delete_key r k = r\<lparr>own := AList.delete k (own r)\<rparr>"

text \<open>
  \<^verbatim>\<open>Object.keys(sessions)\<close> enumerates the own property keys in the order ECMAScript
  fixes: first the keys that are array indices (canonical decimal numerals up to
  \<open>2^32 - 2\<close>) in ascending numeric order, then every other string key in creation order.
\<close>

definition is_digit :: "char \<Rightarrow> bool" where
  "is_digit c = (c \<in> set ''0123456789'')"

definition digit_val :: "char \<Rightarrow> nat" where
  "digit_val c = of_char c - 48"

definition index_of :: "string \<Rightarrow> nat" where
  "index_of s = foldl (\<lambda>n c. 10 * n + digit_val c) 0 s"

definition is_array_index :: "string \<Rightarrow> bool" where
  "is_array_index s =
     (s \<noteq> [] \<and> list_all is_digit s \<and> (s = ''0'' \<or> hd s \<noteq> CHR ''0'')
      \<and> index_of s \<le> 4294967294)"

definition own_keys :: "registry \<Rightarrow> string list" where
  "own_keys r =
     sort_key index_of (filter is_array_index (map fst (own r)))
     @ filter (\<lambda>k. \<not> is_array_index k) (map fst (own r))"

text \<open>
  \<^verbatim>\<open>for (k in sessions)\<close> enumerates the own keys in the same order and then the enumerable
  properties of the prototype chain that no own key hides: the three fields of a session
  object that is the prototype. \<^verbatim>\<open>Object.prototype\<close> has no enumerable property.
\<close>

definition for_in_keys :: "registry \<Rightarrow> string list" where
  "for_in_keys r =
     own_keys r
     @ (case prototype r of
          SessionProto s \<Rightarrow>
            filter (\<lambda>k. k \<notin> set (map fst (own r))) [''client'', ''latestQR'', ''isReady'']
        | _ \<Rightarrow> [])"


text \<open>The optional chains of the source on a looked-up entry:
  \<^verbatim>\<open>sessions[k]?.client\<close> is truthy, \<^verbatim>\<open>sessions[k]?.isReady\<close> is truthy,
  \<^verbatim>\<open>sessions[k]?.latestQR\<close> (\<^verbatim>\<open>undefined\<close> and \<^verbatim>\<open>null\<close> are both \<open>None\<close> here).\<close>

fun has_client :: "session option option \<Rightarrow> bool" where
  "has_client (Some (Some s)) = True"
| "has_client _ = False"

fun entry_isReady :: "session option option \<Rightarrow> bool" where
  "entry_isReady (Some (Some s)) = isReady s"
| "entry_isReady _ = False"

fun entry_latestQR :: "session option option \<Rightarrow> string option" where
  "entry_latestQR (Some (Some s)) = latestQR s"
| "entry_latestQR _ = None"

text \<open>JavaScript truthiness of a value that is \<^verbatim>\<open>null\<close>, \<^verbatim>\<open>undefined\<close> or a string: only
  a non-empty string is truthy.\<close>

fun truthy :: "string option \<Rightarrow> bool" where
  "truthy None = False"
| "truthy (Some s) = (s \<noteq> [])"

subsection \<open>\<^verbatim>\<open>setupSession\<close>\<close>

text \<open>
  The synchronous part of \<^verbatim>\<open>setupSession\<close>, up to its only \<^verbatim>\<open>await\<close>: return at once when
  the entry has a client; otherwise construct a client, store a fresh session object and
  call \<^verbatim>\<open>client.initialize()\<close>. It yields the client whose initialization is now
  awaited, if any.
\<close>

definition setupSession_start :: "string \<Rightarrow> world \<Rightarrow> nat option \<times> world" where
  "setupSession_start sessionId w =
     (if has_client (lookup (sessions w) sessionId) then (None, w)
      else
        let c = next_client w in
        (Some c,
         w\<lparr>sessions := assign (sessions w) sessionId
                          (Some \<lparr>client = c, latestQR = None, isReady = False\<rparr>),
           next_client := Suc c,
           calls := calls w @ [NewClient c sessionId, Initialize c]\<rparr>))"

text \<open>The whole call, when nothing else runs while the initialization is awaited.\<close>

definition setupSession :: "env \<Rightarrow> string \<Rightarrow> world \<Rightarrow> outcome \<times> world" where
  "setupSession e sessionId w =
     (case setupSession_start sessionId w of
        (None, w') \<Rightarrow> (Returned, w')
      | (Some c, w') \<Rightarrow>
          (case initialize e c of
             None \<Rightarrow> (Returned, w')
           | Some err \<Rightarrow> (Threw (Rejected err), w')))"


subsection \<open>Send\<close>

text \<open>\<^verbatim>\<open>POST /api/send\<close> with body \<^verbatim>\<open>{sessionId, number, message}\<close>; \<open>now\<close> is the value
  of \<^verbatim>\<open>new Date()\<close>.\<close>

definition send :: "env \<Rightarrow> nat \<Rightarrow> string \<Rightarrow> string \<Rightarrow> string \<Rightarrow> world \<Rightarrow> reply \<times> world" where
  "send e now sessionId number body w =
     (case lookup (sessions w) sessionId of
        Some (Some s) \<Rightarrow>
          if \<not> isReady s then (Failure 400 ''Session not ready'', w)
          else
            let chatId = number @ ''@c.us'';
                w1 = w\<lparr>calls := calls w @ [SendMessage (client s) chatId body]\<rparr>
            in (case sendMessage e (client s) chatId body of
                  Inl err \<Rightarrow> (Failure 500 err, w1)
                | Inr messageId \<Rightarrow>
                    let m = \<lparr>msg_sessionId = sessionId, msg_from = ''admin'', msg_to = number,
                             msg_text = body, msg_time = now\<rparr>
                    in (case create e m of
                          Some err \<Rightarrow> (Failure 500 err, w1)
                        | None \<Rightarrow> (SendOk messageId, w1\<lparr>messages := messages w1 @ [m]\<rparr>)))
      | _ \<Rightarrow> (Failure 400 ''Session not ready'', w))"

subsection \<open>The client's events\<close>

text \<open>
  The handlers that \<^verbatim>\<open>setupSession\<close> registers on the client. They close over the session
  id, not over the session object: each reads \<^verbatim>\<open>sessions[sessionId]\<close> when it runs. A write
  to a property of \<^verbatim>\<open>null\<close> or \<^verbatim>\<open>undefined\<close> raises a \<^verbatim>\<open>TypeError\<close>. A write to a property
  of an \<open>Other\<close> value raises nothing and changes nothing in \<^verbatim>\<open>sessions\<close> (the file is not
  in strict mode); the property it may leave on a function or on a client object is not
  recorded.

  The \<^verbatim>\<open>qr\<close> listener has two parts. \<open>on_qr\<close> runs when the event arrives: it starts the
  conversion of the code to an image and changes nothing. \<open>on_qr_converted\<close> is the part
  after \<^verbatim>\<open>await qrcode.toDataURL(qr)\<close>: it runs when the conversion has produced the image,
  which may be after later events of the client have been handled. A conversion that
  rejects runs no second part.
\<close>

definition on_qr :: "string \<Rightarrow> string \<Rightarrow> world \<Rightarrow> outcome \<times> world" where
  "on_qr sessionId qr w = (Returned, w)"

definition on_qr_converted :: "string \<Rightarrow> string \<Rightarrow> world \<Rightarrow> outcome \<times> world" where
  "on_qr_converted sessionId imageUrl w =
     (case js_get (sessions w) sessionId of
        SessionObj s \<Rightarrow>
          (Returned,
           w\<lparr>sessions := assign (sessions w) sessionId (Some (s\<lparr>latestQR := Some imageUrl\<rparr>)),
             emitted := emitted w @ [(sessionId, EmitQr imageUrl)]\<rparr>)
      | Other \<Rightarrow> (Returned, w\<lparr>emitted := emitted w @ [(sessionId, EmitQr imageUrl)]\<rparr>)
      | _ \<Rightarrow> (Threw TypeError, w))"

definition on_authenticated :: "string \<Rightarrow> world \<Rightarrow> outcome \<times> world" where
  "on_authenticated sessionId w = (Returned, w)"

definition on_ready :: "string \<Rightarrow> world \<Rightarrow> outcome \<times> world" where
  "on_ready sessionId w =
     (case js_get (sessions w) sessionId of
        SessionObj s \<Rightarrow>
          (Returned,
           w\<lparr>sessions := assign (sessions w) sessionId
                            (Some (s\<lparr>isReady := True, latestQR := None\<rparr>)),
             emitted := emitted w @ [(sessionId, EmitReady)]\<rparr>)
      | Other \<Rightarrow> (Returned, w\<lparr>emitted := emitted w @ [(sessionId, EmitReady)]\<rparr>)
      | _ \<Rightarrow> (Threw TypeError, w))"

definition on_remote_session_saved :: "string \<Rightarrow> world \<Rightarrow> outcome \<times> world" where
  "on_remote_session_saved sessionId w = (Returned, w)"

text \<open>\<^verbatim>\<open>s.replace(pat, rep)\<close> with a string pattern: the first occurrence is replaced.\<close>

fun js_replace :: "string \<Rightarrow> string \<Rightarrow> string \<Rightarrow> string" where
  "js_replace pat rep [] = (if pat = [] then rep else [])"
| "js_replace pat rep (c # cs) =
     (if prefix pat (c # cs) then rep @ drop (length pat) (c # cs)
      else c # js_replace pat rep cs)"

definition on_message :: "env \<Rightarrow> nat \<Rightarrow> string \<Rightarrow> string \<Rightarrow> string \<Rightarrow> world \<Rightarrow> outcome \<times> world" where
  "on_message e now sessionId msg_from_raw msg_body w =
     (let from = js_replace ''@c.us'' [] msg_from_raw;
          m = \<lparr>msg_sessionId = sessionId, msg_from = from, msg_to = sessionId,
               msg_text = msg_body, msg_time = now\<rparr>
      in (case create e m of
            Some err \<Rightarrow> (Threw (Rejected err), w)
          | None \<Rightarrow>
              (Returned,
               w\<lparr>messages := messages w @ [m],
                 emitted := emitted w @ [(sessionId, EmitMessage from msg_body now)]\<rparr>)))"

definition on_disconnected :: "string \<Rightarrow> world \<Rightarrow> outcome \<times> world" where
  "on_disconnected sessionId w =
     (Returned,
      w\<lparr>sessions := assign (sessions w) sessionId None,
        emitted := emitted w @ [(sessionId, EmitDisconnected)]\<rparr>)"

text \<open>The steps a client causes, and the handler part each one runs: its events, and
  \<open>QrConverted\<close> for the end of a conversion that a \<^verbatim>\<open>qr\<close> event started.\<close>

datatype event =
    Qr string
  | QrConverted string
  | Authenticated
  | Ready
  | RemoteSessionSaved
  | Message string string nat
  | Disconnected

fun client_event :: "env \<Rightarrow> string \<Rightarrow> event \<Rightarrow> world \<Rightarrow> outcome \<times> world" where
  "client_event e sessionId (Qr qr) w = on_qr sessionId qr w"
| "client_event e sessionId (QrConverted imageUrl) w = on_qr_converted sessionId imageUrl w"
| "client_event e sessionId Authenticated w = on_authenticated sessionId w"
| "client_event e sessionId Ready w = on_ready sessionId w"
| "client_event e sessionId RemoteSessionSaved w = on_remote_session_saved sessionId w"
| "client_event e sessionId (Message sender text now) w = on_message e now sessionId sender text w"
| "client_event e sessionId Disconnected w = on_disconnected sessionId w"

text \<open>A sequence of such steps of one client, in the order in which they run.\<close>

fun client_events :: "env \<Rightarrow> string \<Rightarrow> event list \<Rightarrow> world \<Rightarrow> world" where
  "client_events e sessionId [] w = w"
| "client_events e sessionId (ev # evs) w =
     client_events e sessionId evs (snd (client_event e sessionId ev w))"

text \<open>The steps that write \<^verbatim>\<open>latestQR\<close>.\<close>

fun writes_qr :: "event \<Rightarrow> bool" where
  "writes_qr (QrConverted imageUrl) = True"
| "writes_qr Ready = True"
| "writes_qr _ = False"

subsection \<open>Reading the registry\<close>

text \<open>\<^verbatim>\<open>GET /api/status/:sessionId\<close> and \<^verbatim>\<open>GET /api/sessions\<close>
  (one triple \<^verbatim>\<open>sessionId, isReady, hasQR\<close> for each key).\<close>

definition status :: "world \<Rightarrow> string \<Rightarrow> bool" where
  "status w sessionId = entry_isReady (lookup (sessions w) sessionId)"

definition list_sessions :: "world \<Rightarrow> (string \<times> bool \<times> bool) list" where
  "list_sessions w =
     map (\<lambda>sessionId.
            (sessionId,
             entry_isReady (lookup (sessions w) sessionId),
             truthy (entry_latestQR (lookup (sessions w) sessionId))))
         (own_keys (sessions w))"

subsection \<open>Logout and delete\<close>

text \<open>\<^verbatim>\<open>GET /api/logout/:sessionId\<close>. Neither \<^verbatim>\<open>await\<close> is inside a \<^verbatim>\<open>try\<close>: a rejection
  ends the handler before the entry is overwritten.\<close>

definition logout_route :: "env \<Rightarrow> string \<Rightarrow> world \<Rightarrow> reply \<times> world" where
  "logout_route e sessionId w =
     (case lookup (sessions w) sessionId of
        Some (Some s) \<Rightarrow>
          let w1 = w\<lparr>calls := calls w @ [Logout (client s)]\<rparr> in
          (case logout e (client s) of
             Some err \<Rightarrow> (Unhandled (Rejected err), w1)
           | None \<Rightarrow>
               let w2 = w1\<lparr>calls := calls w1 @ [Destroy (client s)]\<rparr> in
               (case destroy e (client s) of
                  Some err \<Rightarrow> (Unhandled (Rejected err), w2)
                | None \<Rightarrow>
                    (Success (sessionId @ '' logged out''),
                     w2\<lparr>sessions := assign (sessions w2) sessionId None\<rparr>)))
      | _ \<Rightarrow> (Failure 400 ''Session not found'', w))"

text \<open>\<^verbatim>\<open>DELETE /api/session/:sessionId\<close>. The stored credentials are deleted first; a
  failure there is answered with status 500 and nothing else happens. \<^verbatim>\<open>destroy()\<close> is
  called without \<^verbatim>\<open>await\<close>, so its result is not looked at.\<close>

definition delete_route :: "env \<Rightarrow> string \<Rightarrow> world \<Rightarrow> reply \<times> world" where
  "delete_route e sessionId w =
     (case deleteMany e sessionId of
        Some err \<Rightarrow> (Failure 500 err, w)
      | None \<Rightarrow>
          let w1 = (case lookup (sessions w) sessionId of
                      Some (Some s) \<Rightarrow> w\<lparr>calls := calls w @ [Destroy (client s)]\<rparr>
                    | _ \<Rightarrow> w)
          in (Success (sessionId @ '' session deleted''),
              w1\<lparr>sessions := delete_key (sessions w1) sessionId\<rparr>))"

subsection \<open>Broadcast\<close>

text \<open>
  \<^verbatim>\<open>POST /api/broadcast\<close> with body \<^verbatim>\<open>{message, number}\<close>. The keys are collected when the
  \<^verbatim>\<open>for ... in\<close> loop starts. A key that is no longer enumerable on \<^verbatim>\<open>sessions\<close> when its turn
  comes is passed over; a key added meanwhile is not visited. Each iteration reads
  \<^verbatim>\<open>sessions[sessionId]\<close> anew. Every \<^verbatim>\<open>sendMessage\<close> is awaited inside its own \<^verbatim>\<open>try\<close>, and
  while the loop waits other handlers run: \<open>during\<close> lists, await by await, what they do
  to the state (nothing, once the list is used up). Nothing is written to the
  \<^verbatim>\<open>Message\<close> collection.
\<close>

fun broadcast_loop ::
  "env \<Rightarrow> string \<Rightarrow> string \<Rightarrow> (world \<Rightarrow> world) list \<Rightarrow> string list \<Rightarrow> result list \<Rightarrow> world
     \<Rightarrow> result list \<times> world" where
  "broadcast_loop e number body during [] results w = (results, w)"
| "broadcast_loop e number body during (sessionId # rest) results w =
     (if sessionId \<notin> set (for_in_keys (sessions w))
      then broadcast_loop e number body during rest results w
      else
        (case lookup (sessions w) sessionId of
           Some (Some s) \<Rightarrow>
             if isReady s then
               let chatId = number @ ''@c.us'';
                   w1 = w\<lparr>calls := calls w @ [SendMessage (client s) chatId body]\<rparr>;
                   w2 = (case during of [] \<Rightarrow> w1 | f # fs \<Rightarrow> f w1)
               in (case sendMessage e (client s) chatId body of
                     Inr messageId \<Rightarrow>
                       broadcast_loop e number body (tl during) rest
                         (results @ [Sent sessionId messageId]) w2
                   | Inl err \<Rightarrow>
                       broadcast_loop e number body (tl during) rest
                         (results @ [Failed sessionId err]) w2)
             else broadcast_loop e number body during rest
                    (results @ [Failed sessionId ''Session not ready'']) w
         | _ \<Rightarrow> broadcast_loop e number body during rest
                  (results @ [Failed sessionId ''Session not ready'']) w))"

definition broadcast_during ::
  "env \<Rightarrow> string \<Rightarrow> string \<Rightarrow> (world \<Rightarrow> world) list \<Rightarrow> world \<Rightarrow> result list \<times> world" where
  "broadcast_during e number body during w =
     broadcast_loop e number body during (for_in_keys (sessions w)) [] w"

text \<open>A broadcast during which no other handler runs.\<close>

definition broadcast :: "env \<Rightarrow> string \<Rightarrow> string \<Rightarrow> world \<Rightarrow> result list \<times> world" where
  "broadcast e number body w = broadcast_during e number body [] w"

subsection \<open>Joining a channel\<close>

text \<open>The socket's \<^verbatim>\<open>join\<close> handler: after \<^verbatim>\<open>setupSession\<close> has returned, the socket is sent
  the QR image if \<^verbatim>\<open>latestQR\<close> is truthy, else \<^verbatim>\<open>ready\<close> if \<^verbatim>\<open>isReady\<close> is truthy, else
  nothing. A rejected \<^verbatim>\<open>setupSession\<close> ends the handler before anything is sent. The
  rooms a socket has joined are kept by the socket library and are not part of the state
  here.\<close>

definition join_replay :: "session option option \<Rightarrow> push list" where
  "join_replay entry =
     (case (if truthy (entry_latestQR entry) then entry_latestQR entry else None) of
        Some qr \<Rightarrow> [EmitQr qr]
      | None \<Rightarrow> if entry_isReady entry then [EmitReady] else [])"

definition join :: "env \<Rightarrow> string \<Rightarrow> world \<Rightarrow> (outcome \<times> push list) \<times> world" where
  "join e sessionId w =
     (case setupSession e sessionId w of
        (Threw err, w') \<Rightarrow> ((Threw err, []), w')
      | (Returned, w') \<Rightarrow> ((Returned, join_replay (lookup (sessions w') sessionId)), w'))"

subsection \<open>Concrete states\<close>

text \<open>The state at start-up (\<^verbatim>\<open>const sessions = {}\<close>), and collaborators that never
  fail: the message id is the chat address.\<close>

definition initial :: world where
  "initial = \<lparr>sessions = \<lparr>own = [], prototype = ObjectPrototype\<rparr>, next_client = 0,
               messages = [], emitted = [], calls = []\<rparr>"

definition env_ok :: env where
  "env_ok = \<lparr>sendMessage = (\<lambda>c chatId body. Inr chatId), create = (\<lambda>m. None),
             initialize = (\<lambda>c. None), logout = (\<lambda>c. None), destroy = (\<lambda>c. None),
             deleteMany = (\<lambda>k. None)\<rparr>"


text \<open>Collaborators as \<open>env_ok\<close>, except that \<^verbatim>\<open>sendMessage\<close> of the client with handle
  \<open>c\<close> rejects, and except that the message collection rejects every write.\<close>

definition env_send_fails :: "nat \<Rightarrow> env" where
  "env_send_fails c =
     env_ok\<lparr>sendMessage := (\<lambda>c' chatId body.
                if c' = c then Inl ''provider down'' else Inr chatId)\<rparr>"

definition env_store_fails :: env where
  "env_store_fails = env_ok\<lparr>create := (\<lambda>m. Some ''store down'')\<rparr>"

text \<open>Collaborators as \<open>env_ok\<close>, except that every \<^verbatim>\<open>logout\<close> rejects.\<close>

definition env_logout_fails :: env where
  "env_logout_fails = env_ok\<lparr>logout := (\<lambda>c. Some ''logout failed'')\<rparr>"

text \<open>Three sessions created in the order A, B, C; A and C became ready, B was
  disconnected.\<close>

definition world_abc :: world where
  "world_abc =
     client_events env_ok ''B'' [Disconnected]
       (client_events env_ok ''C'' [Ready]
         (client_events env_ok ''A'' [Ready]
           (snd (setupSession env_ok ''C''
             (snd (setupSession env_ok ''B''
               (snd (setupSession env_ok ''A'' initial))))))))"



text \<open>One session whose client sent a QR code and then became ready before the code's
  image was there.\<close>

definition world_ready_qr :: world where
  "world_ready_qr =
     client_events env_ok ''A'' [Qr ''code'', Ready, QrConverted ''img'']
       (snd (setupSession env_ok ''A'' initial))"

text \<open>A session that received a QR code and is waiting for the scan.\<close>

definition world_qr :: world where
  "world_qr =
     client_events env_ok ''A'' [Qr ''code'', QrConverted ''img'']
       (snd (setupSession env_ok ''A'' initial))"

text \<open>The session with the id \<^verbatim>\<open>__proto__\<close>, set up first and ready, and a session A set up
  after it.\<close>

definition world_proto :: world where
  "world_proto =
     snd (setupSession env_ok ''A''
       (client_events env_ok ''__proto__'' [Ready]
         (snd (setupSession env_ok ''__proto__'' initial))))"

section \<open>Properties\<close>

subsection \<open>The registry\<close>

lemmas registry_simps =
  lookup_def js_get_def inherited_def assign_def sets_prototype_def delete_key_def
  object_prototype_names_def

lemma lookup_initial [simp]: "lookup \<lparr>own = [], prototype = ObjectPrototype\<rparr> k = None"
  by (simp add: lookup_def js_get_def inherited_def)


lemma lookup_assign_session: "lookup (assign r k (Some s)) k = Some (Some s)"
  by (auto simp: lookup_def js_get_def inherited_def assign_def sets_prototype_def update_conv')

lemma lookup_assign_null:
  "lookup (assign r k None) k = (if sets_prototype r k then None else Some None)"
  by (auto simp: lookup_def js_get_def inherited_def assign_def sets_prototype_def update_conv')

lemma js_get_SessionObj: "js_get r k = SessionObj s \<longleftrightarrow> lookup r k = Some (Some s)"
  by (simp add: lookup_def split: val.split)

lemma not_has_client_delete_key:
  "k \<noteq> ''__proto__'' \<Longrightarrow> \<not> has_client (lookup (delete_key r k) k)"
  by (simp add: lookup_def js_get_def inherited_def delete_key_def delete_conv'
      split: proto.split option.split)

lemma delete_key_idem: "delete_key (delete_key r k) k = delete_key r k"
  by (simp add: delete_key_def delete_idem)



lemma set_own_keys: "set (own_keys r) = fst ` set (own r)"
  by (auto simp: own_keys_def)



lemma sessions_world_abc:
  "sessions world_abc =
      \<lparr>own = [(''A'', Some \<lparr>client = 0, latestQR = None, isReady = True\<rparr>),
              (''B'', None),
              (''C'', Some \<lparr>client = 2, latestQR = None, isReady = True\<rparr>)],
       prototype = ObjectPrototype\<rparr>"
  by (simp add: world_abc_def setupSession_def setupSession_start_def initial_def env_ok_def
      on_ready_def on_disconnected_def registry_simps)

lemma sessions_world_ready_qr:
  "sessions world_ready_qr =
     \<lparr>own = [(''A'', Some \<lparr>client = 0, latestQR = Some ''img'', isReady = True\<rparr>)],
      prototype = ObjectPrototype\<rparr>"
  by (simp add: world_ready_qr_def setupSession_def setupSession_start_def initial_def env_ok_def
      on_ready_def on_qr_def on_qr_converted_def registry_simps)

lemma sessions_world_qr:
  "sessions world_qr =
     \<lparr>own = [(''A'', Some \<lparr>client = 0, latestQR = Some ''img'', isReady = False\<rparr>)],
      prototype = ObjectPrototype\<rparr>"
  by (simp add: world_qr_def setupSession_def setupSession_start_def initial_def env_ok_def
      on_qr_def on_qr_converted_def registry_simps)

lemma sessions_world_proto:
  "sessions world_proto =
     \<lparr>own = [(''A'', Some \<lparr>client = 1, latestQR = None, isReady = False\<rparr>)],
      prototype = SessionProto \<lparr>client = 0, latestQR = None, isReady = True\<rparr>\<rparr>"
  by (simp add: world_proto_def setupSession_def setupSession_start_def initial_def env_ok_def
      on_ready_def registry_simps)

lemma setupSession_existing:
  "has_client (lookup (sessions w) k) \<Longrightarrow> setupSession e k w = (Returned, w)"
  by (simp add: setupSession_def setupSession_start_def)

lemma setupSession_fresh:
  assumes "\<not> has_client (lookup (sessions w) k)"
  shows "lookup (sessions (snd (setupSession e k w))) k =
     Some (Some \<lparr>client = next_client w, latestQR = None, isReady = False\<rparr>)"
  using assms
  by (simp add: setupSession_def setupSession_start_def Let_def lookup_assign_session
      split: option.split)

subsection \<open>Send\<close>

text \<open>
  Claim C4. A send whose session id is absent from the registry, or whose entry is
  \<^verbatim>\<open>null\<close>, or whose session is not ready, is answered with status 400 and the error
  \<^verbatim>\<open>Session not ready\<close>; the state of the process is unchanged, so the client's
  \<^verbatim>\<open>sendMessage\<close> is not called and no message is persisted.
\<close>

theorem send_not_ready:
  assumes "\<not> entry_isReady (lookup (sessions w) sessionId)"
  shows "send e now sessionId number body w = (Failure 400 ''Session not ready'', w)"
proof (cases "lookup (sessions w) sessionId")
  case None
  then show ?thesis by (simp add: send_def)
next
  case (Some entry)
  show ?thesis
  proof (cases entry)
    case None
    with Some show ?thesis by (simp add: send_def)
  next
    case (Some s)
    with \<open>lookup (sessions w) sessionId = Some entry\<close> assms show ?thesis
      by (simp add: send_def)
  qed
qed

theorem send_not_ready_witness:
  "\<not> entry_isReady (lookup (sessions (snd (setupSession_start ''a'' initial))) ''a'')
   \<and> send env_ok 7 ''a'' ''123'' ''hi'' (snd (setupSession_start ''a'' initial))
       = (Failure 400 ''Session not ready'', snd (setupSession_start ''a'' initial))"
proof -
  have h: "\<not> entry_isReady (lookup (sessions (snd (setupSession_start ''a'' initial))) ''a'')"
    by (simp add: setupSession_start_def initial_def registry_simps)
  show ?thesis
    using h send_not_ready [OF h, of env_ok 7 "''123''" "''hi''"] by simp
qed

text \<open>
  Claim C5, as the code has it. A send on a ready session calls the client's
  \<^verbatim>\<open>sendMessage\<close> once, and then:
  \<^item> when it resolves and the write to the message collection resolves, exactly one
    document (sessionId, admin, number, message, now) is appended and the reply carries
    the provider's message id;
  \<^item> when it resolves and the write rejects, the reply is status 500 with the store's
    error and no document is appended;
  \<^item> when it rejects, the reply is status 500 with the provider's error and no document
    is appended.
\<close>

theorem send_ready:
  assumes "lookup (sessions w) sessionId = Some (Some s)" and "isReady s"
  shows
  "let chatId = number @ ''@c.us'';
       m = \<lparr>msg_sessionId = sessionId, msg_from = ''admin'', msg_to = number,
            msg_text = body, msg_time = now\<rparr>;
       w1 = w\<lparr>calls := calls w @ [SendMessage (client s) chatId body]\<rparr>
   in (\<forall>messageId. sendMessage e (client s) chatId body = Inr messageId \<and> create e m = None \<longrightarrow>
         send e now sessionId number body w = (SendOk messageId, w1\<lparr>messages := messages w @ [m]\<rparr>))
      \<and> (\<forall>messageId err.
            sendMessage e (client s) chatId body = Inr messageId \<and> create e m = Some err \<longrightarrow>
            send e now sessionId number body w = (Failure 500 err, w1))
      \<and> (\<forall>err. sendMessage e (client s) chatId body = Inl err \<longrightarrow>
            send e now sessionId number body w = (Failure 500 err, w1))"
  using assms by (simp add: send_def Let_def)

text \<open>Session A of \<open>world_abc\<close>, with collaborators that work, with a message
  collection that rejects, and with a provider that rejects.\<close>

theorem send_ready_witness:
  "lookup (sessions world_abc) ''A'' = Some (Some \<lparr>client = 0, latestQR = None, isReady = True\<rparr>)
   \<and> send env_ok 7 ''A'' ''5'' ''hi'' world_abc =
       (SendOk ''5@c.us'',
        world_abc\<lparr>calls := calls world_abc @ [SendMessage 0 ''5@c.us'' ''hi''],
                  messages := messages world_abc @
                    [\<lparr>msg_sessionId = ''A'', msg_from = ''admin'', msg_to = ''5'',
                      msg_text = ''hi'', msg_time = 7\<rparr>]\<rparr>)
   \<and> send env_store_fails 7 ''A'' ''5'' ''hi'' world_abc =
       (Failure 500 ''store down'',
        world_abc\<lparr>calls := calls world_abc @ [SendMessage 0 ''5@c.us'' ''hi'']\<rparr>)
   \<and> send (env_send_fails 0) 7 ''A'' ''5'' ''hi'' world_abc =
       (Failure 500 ''provider down'',
        world_abc\<lparr>calls := calls world_abc @ [SendMessage 0 ''5@c.us'' ''hi'']\<rparr>)"
proof -
  have h: "lookup (sessions world_abc) ''A''
      = Some (Some \<lparr>client = 0, latestQR = None, isReady = True\<rparr>)"
    by (simp add: sessions_world_abc registry_simps)
  have r: "isReady \<lparr>client = 0, latestQR = None, isReady = True\<rparr>"
    by simp
  show ?thesis
    using h send_ready [OF h r, of "''5''" "''hi''" 7 env_ok]
      send_ready [OF h r, of "''5''" "''hi''" 7 env_store_fails]
      send_ready [OF h r, of "''5''" "''hi''" 7 "env_send_fails 0"]
    by (simp add: Let_def env_ok_def env_store_fails_def env_send_fails_def)
qed

text \<open>The provider accepted the message, yet no document was written and the reply is an
  error: the claim's first half fails when the message collection rejects.\<close>

theorem send_store_failure_counterexample:
  "entry_isReady (lookup (sessions world_abc) ''A'')
   \<and> sendMessage env_store_fails 0 ''5@c.us'' ''hi'' = Inr ''5@c.us''
   \<and> fst (send env_store_fails 7 ''A'' ''5'' ''hi'' world_abc) = Failure 500 ''store down''
   \<and> messages (snd (send env_store_fails 7 ''A'' ''5'' ''hi'' world_abc)) = messages world_abc"
  by (simp add: send_def sessions_world_abc registry_simps env_store_fails_def env_ok_def Let_def)

subsection \<open>Broadcast\<close>

text \<open>While no other handler runs, the loop is a map over the keys it collected: the
  result pushed for a key, and the call made for it, depend on that key's entry alone.\<close>

lemma broadcast_loop_quiet:
  assumes "set ks \<subseteq> set (for_in_keys (sessions w))"
  shows "broadcast_loop e number body [] ks results w =
     (results @ map (\<lambda>sessionId.
          case lookup (sessions w) sessionId of
            Some (Some s) \<Rightarrow>
              if isReady s then
                (case sendMessage e (client s) (number @ ''@c.us'') body of
                   Inr messageId \<Rightarrow> Sent sessionId messageId
                 | Inl err \<Rightarrow> Failed sessionId err)
              else Failed sessionId ''Session not ready''
          | _ \<Rightarrow> Failed sessionId ''Session not ready'') ks,
      w\<lparr>calls := calls w @ concat (map (\<lambda>sessionId.
          case lookup (sessions w) sessionId of
            Some (Some s) \<Rightarrow>
              if isReady s then [SendMessage (client s) (number @ ''@c.us'') body] else []
          | _ \<Rightarrow> []) ks)\<rparr>)"
  using assms
proof (induction ks arbitrary: results w)
  case Nil
  show ?case by simp
next
  case (Cons k ks)
  from Cons.prems have k: "k \<in> set (for_in_keys (sessions w))"
    and ks: "set ks \<subseteq> set (for_in_keys (sessions w))"
    by simp_all
  have step: "set ks \<subseteq> set (for_in_keys (sessions (w\<lparr>calls := c\<rparr>)))" for c
    using ks by simp
  show ?case
    using k by (simp add: Cons.IH [OF ks] Cons.IH [OF step] Let_def split: option.split sum.split)
qed







subsection \<open>Inbound messages\<close>

lemma js_replace_suffix:
  "CHR ''@'' \<notin> set n \<Longrightarrow> js_replace ''@c.us'' [] (n @ ''@c.us'') = n"
  by (induction n) auto

text \<open>
  Claim C2, as the code has it. The handler of the client's \<^verbatim>\<open>message\<close> event removes
  the first \<^verbatim>\<open>@c.us\<close> from the sender's address (for an address \<^verbatim>\<open>n@c.us\<close> with no other
  \<^verbatim>\<open>@\<close>, the result is \<^verbatim>\<open>n\<close>) and writes one document (sessionId, from, sessionId,
  body, now). When the write resolves, the document is appended and then the message is
  published on the session's channel. When the write rejects, the handler ends there:
  nothing is appended and nothing is published.
\<close>

theorem on_message_persists_then_publishes:
  "let from = js_replace ''@c.us'' [] sender;
       m = \<lparr>msg_sessionId = sessionId, msg_from = from, msg_to = sessionId,
            msg_text = text, msg_time = now\<rparr>
   in (create e m = None \<longrightarrow>
         on_message e now sessionId sender text w =
           (Returned,
            w\<lparr>messages := messages w @ [m],
              emitted := emitted w @ [(sessionId, EmitMessage from text now)]\<rparr>))
      \<and> (\<forall>err. create e m = Some err \<longrightarrow>
            on_message e now sessionId sender text w = (Threw (Rejected err), w))
      \<and> (\<forall>n. sender = n @ ''@c.us'' \<and> CHR ''@'' \<notin> set n \<longrightarrow> from = n)"
  by (simp add: on_message_def Let_def js_replace_suffix)

theorem on_message_persists_then_publishes_witness:
  "on_message env_ok 7 ''A'' ''123@c.us'' ''hello'' initial =
     (Returned,
      initial\<lparr>messages := [\<lparr>msg_sessionId = ''A'', msg_from = ''123'', msg_to = ''A'',
                              msg_text = ''hello'', msg_time = 7\<rparr>],
              emitted := [(''A'', EmitMessage ''123'' ''hello'' 7)]\<rparr>)
   \<and> on_message env_store_fails 7 ''A'' ''123@c.us'' ''hello'' initial =
       (Threw (Rejected ''store down''), initial)"
  using on_message_persists_then_publishes [of "''123@c.us''" "''A''" "''hello''" 7 env_ok initial]
    on_message_persists_then_publishes
      [of "''123@c.us''" "''A''" "''hello''" 7 env_store_fails initial]
  by (simp add: Let_def env_ok_def env_store_fails_def initial_def)

text \<open>With a message collection that rejects, the channel receives nothing.\<close>

theorem on_message_store_failure_counterexample:
  "fst (on_message env_store_fails 7 ''A'' ''123@c.us'' ''hello'' world_abc)
     = Threw (Rejected ''store down'')
   \<and> emitted (snd (on_message env_store_fails 7 ''A'' ''123@c.us'' ''hello'' world_abc))
     = emitted world_abc"
  by (simp add: on_message_def env_store_fails_def env_ok_def)

subsection \<open>The client's events\<close>

text \<open>One step of a live session that is not \<open>Disconnected\<close>.\<close>

lemma client_event_live:
  assumes "lookup (sessions w) k = Some (Some s)" and "ev \<noteq> Disconnected"
  shows "lookup (sessions (snd (client_event e k ev w))) k =
     Some (Some (s\<lparr>isReady := isReady s \<or> ev = Ready,
                    latestQR := (case ev of QrConverted imageUrl \<Rightarrow> Some imageUrl
                                 | Ready \<Rightarrow> None | _ \<Rightarrow> latestQR s)\<rparr>))"
proof -
  from assms(1) have "js_get (sessions w) k = SessionObj s"
    by (simp add: js_get_SessionObj)
  with assms show ?thesis
    by (cases ev)
      (simp_all add: on_qr_def on_qr_converted_def on_ready_def on_authenticated_def
        on_remote_session_saved_def on_message_def lookup_assign_session Let_def
        split: option.split)
qed

lemma client_events_append:
  "client_events e k (evs @ evs') w = client_events e k evs' (client_events e k evs w)"
  by (induction evs arbitrary: w) simp_all

lemma client_events_live:
  assumes "lookup (sessions w) k = Some (Some s)" and "Disconnected \<notin> set evs"
  shows "lookup (sessions (client_events e k evs w)) k =
     Some (Some (s\<lparr>isReady := isReady s \<or> Ready \<in> set evs,
                    latestQR := (case rev (filter writes_qr evs) of
                                   QrConverted imageUrl # _ \<Rightarrow> Some imageUrl
                                 | Ready # _ \<Rightarrow> None
                                 | _ \<Rightarrow> latestQR s)\<rparr>))"
  using assms(2)
proof (induction evs rule: rev_induct)
  case Nil
  with assms(1) show ?case by simp
next
  case (snoc ev evs)
  then have ev: "ev \<noteq> Disconnected" and evs: "Disconnected \<notin> set evs"
    by auto
  show ?case
    unfolding client_events_append
    using client_event_live [OF snoc.IH [OF evs] ev, of e]
    by (cases ev) (auto split: list.split event.split)
qed

text \<open>An entry that holds no session gets none from the client's steps, and an own
  \<^verbatim>\<open>null\<close> stays.\<close>

lemma client_event_dead:
  assumes "\<not> has_client (lookup (sessions w) k)"
  shows "\<not> has_client (lookup (sessions (snd (client_event e k ev w))) k)"
proof -
  from assms have "\<And>s. js_get (sessions w) k \<noteq> SessionObj s"
    by (auto simp: js_get_SessionObj)
  then show ?thesis
    using assms
    by (cases ev; cases "js_get (sessions w) k")
      (auto simp: on_qr_def on_qr_converted_def on_ready_def on_authenticated_def
        on_remote_session_saved_def on_message_def on_disconnected_def lookup_assign_null
        Let_def split: option.split)
qed

lemma client_event_null:
  assumes "lookup (sessions w) k = Some None" and "k \<noteq> ''__proto__''"
  shows "lookup (sessions (snd (client_event e k ev w))) k = Some None"
proof -
  from assms(1) have "js_get (sessions w) k = Null"
    by (auto simp: lookup_def split: val.splits)
  with assms show ?thesis
    by (cases ev)
      (simp_all add: on_qr_def on_qr_converted_def on_ready_def on_authenticated_def
        on_remote_session_saved_def on_message_def on_disconnected_def lookup_assign_null
        sets_prototype_def Let_def split: option.split)
qed

lemma client_events_dead:
  assumes "\<not> has_client (lookup (sessions w) k)"
  shows "\<not> has_client (lookup (sessions (client_events e k evs w)) k)"
  using assms
  by (induction evs arbitrary: w) (simp_all add: client_event_dead)

lemma client_events_null:
  assumes "lookup (sessions w) k = Some None" and "k \<noteq> ''__proto__''"
  shows "lookup (sessions (client_events e k evs w)) k = Some None"
  using assms
  by (induction evs arbitrary: w) (simp_all add: client_event_null)

lemma client_events_disconnected:
  assumes "Disconnected \<in> set evs"
  shows "\<not> has_client (lookup (sessions (client_events e k evs w)) k)"
    and "k \<noteq> ''__proto__'' \<Longrightarrow> lookup (sessions (client_events e k evs w)) k = Some None"
proof -
  from assms obtain pre post where evs: "evs = pre @ Disconnected # post"
    by (auto simp: in_set_conv_decomp)
  let ?w1 = "client_events e k [Disconnected] (client_events e k pre w)"
  have split: "client_events e k evs w = client_events e k post ?w1"
    unfolding evs using client_events_append [of e k pre "Disconnected # post" w]
      client_events_append [of e k "[Disconnected]" post "client_events e k pre w"]
    by simp
  have "\<not> has_client (lookup (sessions ?w1) k)"
    by (simp add: on_disconnected_def lookup_assign_null)
  then show "\<not> has_client (lookup (sessions (client_events e k evs w)) k)"
    unfolding split by (rule client_events_dead)
  assume k: "k \<noteq> ''__proto__''"
  then have "lookup (sessions ?w1) k = Some None"
    by (simp add: on_disconnected_def lookup_assign_null sets_prototype_def)
  then show "lookup (sessions (client_events e k evs w)) k = Some None"
    unfolding split using k by (rule client_events_null)
qed

text \<open>
  Claim C3, as the code has it. Take a session just created by \<^verbatim>\<open>setupSession\<close> and any
  sequence of the steps its client causes: its events, and the ends of the image
  conversions that its \<^verbatim>\<open>qr\<close> events started, each of which may come after later events.
  Once a \<^verbatim>\<open>disconnected\<close> event has been handled the entry holds no session (it is \<^verbatim>\<open>null\<close>,
  for an id other than \<^verbatim>\<open>__proto__\<close>). Until then the session is ready exactly when a
  \<^verbatim>\<open>ready\<close> event has been handled, and its QR payload is non-null exactly when the latest
  among the ended conversions and the \<^verbatim>\<open>ready\<close> events is an ended conversion, whose image
  it then is: null right after \<^verbatim>\<open>ready\<close>, non-null right after a conversion ends, whether
  or not the session is ready.
\<close>

theorem qr_payload_follows_events:
  assumes "\<not> has_client (lookup (sessions w) k)"
  shows "(Disconnected \<in> set evs \<longrightarrow>
            \<not> has_client (lookup (sessions (client_events e k evs (snd (setupSession e k w)))) k)
            \<and> (k \<noteq> ''__proto__'' \<longrightarrow>
                 lookup (sessions (client_events e k evs (snd (setupSession e k w)))) k
                   = Some None))
       \<and> (Disconnected \<notin> set evs \<longrightarrow>
            lookup (sessions (client_events e k evs (snd (setupSession e k w)))) k =
              Some (Some \<lparr>client = next_client w,
                           latestQR = (case rev (filter writes_qr evs) of
                                         QrConverted imageUrl # _ \<Rightarrow> Some imageUrl
                                       | _ \<Rightarrow> None),
                           isReady = (Ready \<in> set evs)\<rparr>))"
proof (cases "Disconnected \<in> set evs")
  case True
  then show ?thesis
    by (simp add: client_events_disconnected)
next
  case False
  show ?thesis
    using client_events_live [OF setupSession_fresh [OF assms] False, of e e] False
    by (auto split: list.split event.split)
qed

text \<open>A session whose code was converted twice; a session that became ready after its
  code was converted; a session whose conversion ended after it became ready; a session
  that was disconnected.\<close>

theorem qr_payload_follows_events_witness:
  "\<not> has_client (lookup (sessions initial) ''A'')
   \<and> lookup (sessions (client_events env_ok ''A''
        [Qr ''c1'', QrConverted ''img1'', Qr ''c2'', QrConverted ''img2'', Authenticated]
        (snd (setupSession env_ok ''A'' initial)))) ''A''
     = Some (Some \<lparr>client = 0, latestQR = Some ''img2'', isReady = False\<rparr>)
   \<and> lookup (sessions (client_events env_ok ''A''
        [Qr ''c1'', QrConverted ''img1'', Authenticated, Ready]
        (snd (setupSession env_ok ''A'' initial)))) ''A''
     = Some (Some \<lparr>client = 0, latestQR = None, isReady = True\<rparr>)
   \<and> lookup (sessions (client_events env_ok ''A''
        [Qr ''c1'', Authenticated, Ready, QrConverted ''img1'']
        (snd (setupSession env_ok ''A'' initial)))) ''A''
     = Some (Some \<lparr>client = 0, latestQR = Some ''img1'', isReady = True\<rparr>)
   \<and> lookup (sessions (client_events env_ok ''A''
        [Qr ''c1'', Disconnected, QrConverted ''img1'']
        (snd (setupSession env_ok ''A'' initial)))) ''A''
     = Some None"
proof -
  have h: "\<not> has_client (lookup (sessions initial) ''A'')"
    by (simp add: initial_def)
  show ?thesis
    using h
      qr_payload_follows_events [OF h,
        of "[Qr ''c1'', QrConverted ''img1'', Qr ''c2'', QrConverted ''img2'', Authenticated]" env_ok]
      qr_payload_follows_events [OF h,
        of "[Qr ''c1'', QrConverted ''img1'', Authenticated, Ready]" env_ok]
      qr_payload_follows_events [OF h,
        of "[Qr ''c1'', Authenticated, Ready, QrConverted ''img1'']" env_ok]
      qr_payload_follows_events [OF h,
        of "[Qr ''c1'', Disconnected, QrConverted ''img1'']" env_ok]
    by (simp add: initial_def)
qed

text \<open>The client sent a code and became ready before the code's image was there: the
  session is ready and holds a QR payload.\<close>

theorem ready_session_with_qr_counterexample:
  "entry_isReady (lookup (sessions world_ready_qr) ''A'')
   \<and> entry_latestQR (lookup (sessions world_ready_qr) ''A'') = Some ''img''"
  by (simp add: sessions_world_ready_qr registry_simps)

subsection \<open>Joining a channel\<close>

text \<open>
  Claim C6, as the code has it. A join on an id whose entry has a client changes nothing
  and sends the subscriber, at once, a replay that depends on that session's fields
  alone: the QR image when \<^verbatim>\<open>latestQR\<close> is a non-empty string, whether or not the session
  is ready; otherwise \<^verbatim>\<open>ready\<close> when \<^verbatim>\<open>isReady\<close> holds; otherwise nothing.
\<close>

theorem join_replays_current_state:
  "(\<forall>s. lookup (sessions w) k = Some (Some s) \<longrightarrow>
      (\<forall>qr. latestQR s = Some qr \<and> qr \<noteq> [] \<longrightarrow> join e k w = ((Returned, [EmitQr qr]), w))
      \<and> (\<not> truthy (latestQR s) \<and> isReady s \<longrightarrow> join e k w = ((Returned, [EmitReady]), w))
      \<and> (\<not> truthy (latestQR s) \<and> \<not> isReady s \<longrightarrow> join e k w = ((Returned, []), w)))"
proof -
  have live: "join e k w = ((Returned, join_replay (Some (Some s))), w)"
    if "lookup (sessions w) k = Some (Some s)" for s
    using that by (simp add: join_def setupSession_existing)
  show ?thesis
    using live by (auto simp: join_replay_def)
qed

theorem join_replays_current_state_witness:
  "lookup (sessions world_qr) ''A'' = Some (Some \<lparr>client = 0, latestQR = Some ''img'', isReady = False\<rparr>)
   \<and> join env_ok ''A'' world_qr = ((Returned, [EmitQr ''img'']), world_qr)
   \<and> lookup (sessions world_abc) ''A'' = Some (Some \<lparr>client = 0, latestQR = None, isReady = True\<rparr>)
   \<and> join env_ok ''A'' world_abc = ((Returned, [EmitReady]), world_abc)
   \<and> lookup (sessions (snd (setupSession_start ''A'' initial))) ''A''
       = Some (Some \<lparr>client = 0, latestQR = None, isReady = False\<rparr>)
   \<and> join env_ok ''A'' (snd (setupSession_start ''A'' initial))
       = ((Returned, []), snd (setupSession_start ''A'' initial))"
proof -
  have q: "lookup (sessions world_qr) ''A''
      = Some (Some \<lparr>client = 0, latestQR = Some ''img'', isReady = False\<rparr>)"
    by (simp add: sessions_world_qr registry_simps)
  have a: "lookup (sessions world_abc) ''A''
      = Some (Some \<lparr>client = 0, latestQR = None, isReady = True\<rparr>)"
    by (simp add: sessions_world_abc registry_simps)
  have f: "lookup (sessions (snd (setupSession_start ''A'' initial))) ''A''
      = Some (Some \<lparr>client = 0, latestQR = None, isReady = False\<rparr>)"
    by (simp add: setupSession_start_def initial_def registry_simps)
  show ?thesis
    using q a f
      join_replays_current_state [of world_qr "''A''" env_ok]
      join_replays_current_state [of world_abc "''A''" env_ok]
      join_replays_current_state [of "snd (setupSession_start ''A'' initial)" "''A''" env_ok]
    by simp
qed

text \<open>A ready session that holds a QR payload is replayed the QR image, not the ready
  signal.\<close>

theorem join_ready_with_qr_counterexample:
  "status world_ready_qr ''A''
   \<and> join env_ok ''A'' world_ready_qr = ((Returned, [EmitQr ''img'']), world_ready_qr)"
  by (simp add: status_def join_def join_replay_def setupSession_def setupSession_start_def
      sessions_world_ready_qr registry_simps)

subsection \<open>Concurrent creation\<close>




subsection \<open>Logout and delete\<close>

lemma not_own_delete_key: "k \<notin> set (own_keys (delete_key r k))"
  by (simp add: set_own_keys delete_key_def delete_notin_dom)

text \<open>
  Claim C8, as the code has it. The two routes that remove a session differ.
  \<^item> \<^verbatim>\<open>DELETE /api/session/:id\<close>, when the stored credentials are deleted without error,
    answers success whether or not the id is tracked and deletes the own key of
    \<^verbatim>\<open>sessions\<close>; for an id other than \<^verbatim>\<open>__proto__\<close> no session is left for the id, and a
    second call answers the same and changes nothing. On an entry with a client it calls
    \<^verbatim>\<open>destroy\<close> only, never \<^verbatim>\<open>logout\<close>.
  \<^item> \<^verbatim>\<open>GET /api/logout/:id\<close> on an entry with a client calls \<^verbatim>\<open>logout\<close>, then \<^verbatim>\<open>destroy\<close>,
    and, when both resolve, assigns \<^verbatim>\<open>null\<close> to the entry (for an id other than
    \<^verbatim>\<open>__proto__\<close> the key stays, mapped to \<^verbatim>\<open>null\<close>) and answers success. On an id with no
    client, so also when called a second time, it answers status 400
    \<^verbatim>\<open>Session not found\<close> and changes nothing.
\<close>

theorem remove_routes:
  "(deleteMany e k = None \<longrightarrow>
      fst (delete_route e k w) = Success (k @ '' session deleted'')
      \<and> sessions (snd (delete_route e k w)) = delete_key (sessions w) k
      \<and> k \<notin> set (own_keys (sessions (snd (delete_route e k w))))
      \<and> calls (snd (delete_route e k w)) =
          calls w @ (case lookup (sessions w) k of
                       Some (Some s) \<Rightarrow> [Destroy (client s)]
                     | _ \<Rightarrow> [])
      \<and> (k \<noteq> ''__proto__'' \<longrightarrow>
           \<not> has_client (lookup (sessions (snd (delete_route e k w))) k)
           \<and> delete_route e k (snd (delete_route e k w)) =
               (Success (k @ '' session deleted''), snd (delete_route e k w))))
   \<and> (\<not> has_client (lookup (sessions w) k) \<longrightarrow>
        logout_route e k w = (Failure 400 ''Session not found'', w))
   \<and> (\<forall>s. lookup (sessions w) k = Some (Some s)
          \<and> logout e (client s) = None \<and> destroy e (client s) = None \<longrightarrow>
        logout_route e k w =
          (Success (k @ '' logged out''),
           w\<lparr>calls := calls w @ [Logout (client s), Destroy (client s)],
             sessions := assign (sessions w) k None\<rparr>)
        \<and> (k \<noteq> ''__proto__'' \<longrightarrow> lookup (assign (sessions w) k None) k = Some None)
        \<and> logout_route e k (snd (logout_route e k w)) =
            (Failure 400 ''Session not found'', snd (logout_route e k w)))"
proof -
  have del: "deleteMany e k = None \<longrightarrow>
      fst (delete_route e k w) = Success (k @ '' session deleted'')
      \<and> sessions (snd (delete_route e k w)) = delete_key (sessions w) k
      \<and> k \<notin> set (own_keys (sessions (snd (delete_route e k w))))
      \<and> calls (snd (delete_route e k w)) =
          calls w @ (case lookup (sessions w) k of
                       Some (Some s) \<Rightarrow> [Destroy (client s)]
                     | _ \<Rightarrow> [])
      \<and> (k \<noteq> ''__proto__'' \<longrightarrow>
           \<not> has_client (lookup (sessions (snd (delete_route e k w))) k)
           \<and> delete_route e k (snd (delete_route e k w)) =
               (Success (k @ '' session deleted''), snd (delete_route e k w)))"
  proof
    assume d: "deleteMany e k = None"
    have s: "sessions (snd (delete_route e k w)) = delete_key (sessions w) k"
      using d by (simp add: delete_route_def Let_def split: option.split)
    have again: "delete_route e k (snd (delete_route e k w)) =
        (Success (k @ '' session deleted''), snd (delete_route e k w))"
      if "k \<noteq> ''__proto__''"
    proof -
      from that have "\<not> has_client (lookup (sessions (snd (delete_route e k w))) k)"
        by (simp add: s not_has_client_delete_key)
      then show ?thesis
        using d
        by (cases "lookup (sessions (snd (delete_route e k w))) k" rule: has_client.cases)
          (simp_all add: delete_route_def [of e k "snd (delete_route e k w)"] s delete_key_idem)
    qed
    from d s again show "fst (delete_route e k w) = Success (k @ '' session deleted'')
      \<and> sessions (snd (delete_route e k w)) = delete_key (sessions w) k
      \<and> k \<notin> set (own_keys (sessions (snd (delete_route e k w))))
      \<and> calls (snd (delete_route e k w)) =
          calls w @ (case lookup (sessions w) k of
                       Some (Some s) \<Rightarrow> [Destroy (client s)]
                     | _ \<Rightarrow> [])
      \<and> (k \<noteq> ''__proto__'' \<longrightarrow>
           \<not> has_client (lookup (sessions (snd (delete_route e k w))) k)
           \<and> delete_route e k (snd (delete_route e k w)) =
               (Success (k @ '' session deleted''), snd (delete_route e k w)))"
      by (simp add: not_own_delete_key not_has_client_delete_key)
        (simp add: delete_route_def Let_def split: option.split)
  qed
  have absent: "\<not> has_client (lookup (sessions w) k) \<longrightarrow>
        logout_route e k w = (Failure 400 ''Session not found'', w)"
    by (cases "lookup (sessions w) k" rule: has_client.cases)
      (simp_all add: logout_route_def)
  have out: "\<forall>s. lookup (sessions w) k = Some (Some s)
          \<and> logout e (client s) = None \<and> destroy e (client s) = None \<longrightarrow>
        logout_route e k w =
          (Success (k @ '' logged out''),
           w\<lparr>calls := calls w @ [Logout (client s), Destroy (client s)],
             sessions := assign (sessions w) k None\<rparr>)
        \<and> (k \<noteq> ''__proto__'' \<longrightarrow> lookup (assign (sessions w) k None) k = Some None)
        \<and> logout_route e k (snd (logout_route e k w)) =
            (Failure 400 ''Session not found'', snd (logout_route e k w))"
    by (auto simp: logout_route_def Let_def lookup_assign_null sets_prototype_def)
  from del absent out show ?thesis
    by (intro conjI)
qed

theorem remove_routes_witness:
  "deleteMany env_ok ''A'' = None
   \<and> fst (delete_route env_ok ''A'' world_abc) = Success ''A session deleted''
   \<and> ''A'' \<notin> set (own_keys (sessions (snd (delete_route env_ok ''A'' world_abc))))
   \<and> \<not> has_client (lookup (sessions (snd (delete_route env_ok ''A'' world_abc))) ''A'')
   \<and> calls (snd (delete_route env_ok ''A'' world_abc)) = calls world_abc @ [Destroy 0]
   \<and> \<not> has_client (lookup (sessions world_abc) ''B'')
   \<and> logout_route env_ok ''B'' world_abc = (Failure 400 ''Session not found'', world_abc)
   \<and> lookup (sessions world_abc) ''C'' = Some (Some \<lparr>client = 2, latestQR = None, isReady = True\<rparr>)
   \<and> logout env_ok 2 = None \<and> destroy env_ok 2 = None
   \<and> logout_route env_ok ''C'' world_abc =
       (Success ''C logged out'',
        world_abc\<lparr>calls := calls world_abc @ [Logout 2, Destroy 2],
                  sessions := assign (sessions world_abc) ''C'' None\<rparr>)
   \<and> lookup (assign (sessions world_abc) ''C'' None) ''C'' = Some None"
proof -
  have d: "deleteMany env_ok ''A'' = None"
    by (simp add: env_ok_def)
  have a: "lookup (sessions world_abc) ''A''
      = Some (Some \<lparr>client = 0, latestQR = None, isReady = True\<rparr>)"
    by (simp add: sessions_world_abc registry_simps)
  have b: "\<not> has_client (lookup (sessions world_abc) ''B'')"
    by (simp add: sessions_world_abc registry_simps)
  have c: "lookup (sessions world_abc) ''C''
      = Some (Some \<lparr>client = 2, latestQR = None, isReady = True\<rparr>)"
    by (simp add: sessions_world_abc registry_simps)
  have l: "logout env_ok 2 = None \<and> destroy env_ok 2 = None"
    by (simp add: env_ok_def)
  from d a remove_routes [of env_ok "''A''" world_abc]
  have A: "fst (delete_route env_ok ''A'' world_abc) = Success ''A session deleted''
      \<and> ''A'' \<notin> set (own_keys (sessions (snd (delete_route env_ok ''A'' world_abc))))
      \<and> \<not> has_client (lookup (sessions (snd (delete_route env_ok ''A'' world_abc))) ''A'')
      \<and> calls (snd (delete_route env_ok ''A'' world_abc)) = calls world_abc @ [Destroy 0]"
    by (simp add: not_own_delete_key not_has_client_delete_key)
  from b remove_routes [of env_ok "''B''" world_abc]
  have B: "logout_route env_ok ''B'' world_abc = (Failure 400 ''Session not found'', world_abc)"
    by blast
  from c l remove_routes [of env_ok "''C''" world_abc]
  have C: "logout_route env_ok ''C'' world_abc =
       (Success ''C logged out'',
        world_abc\<lparr>calls := calls world_abc @ [Logout 2, Destroy 2],
                  sessions := assign (sessions world_abc) ''C'' None\<rparr>)
      \<and> lookup (assign (sessions world_abc) ''C'' None) ''C'' = Some None"
    by simp
  from d b c l A B C show ?thesis
    by (intro conjI) simp_all
qed

text \<open>
  Logout of an id that is absent, and a second logout, are answered with an error; delete
  tears the client down without a logout. For the id \<^verbatim>\<open>__proto__\<close>, whose session is the
  prototype, delete leaves the session in place and logout leaves no key.
\<close>

theorem logout_absent_counterexample:
  "logout_route env_ok ''A'' initial = (Failure 400 ''Session not found'', initial)
   \<and> fst (logout_route env_ok ''C'' (snd (logout_route env_ok ''C'' world_abc)))
       = Failure 400 ''Session not found''
   \<and> calls (snd (delete_route env_ok ''A'' world_abc)) = calls world_abc @ [Destroy 0]
   \<and> fst (delete_route env_ok ''__proto__'' world_proto) = Success ''__proto__ session deleted''
   \<and> lookup (sessions (snd (delete_route env_ok ''__proto__'' world_proto))) ''__proto__''
       = Some (Some \<lparr>client = 0, latestQR = None, isReady = True\<rparr>)
   \<and> fst (logout_route env_ok ''__proto__'' world_proto) = Success ''__proto__ logged out''
   \<and> lookup (sessions (snd (logout_route env_ok ''__proto__'' world_proto))) ''__proto__'' = None
   \<and> own_keys (sessions (snd (logout_route env_ok ''__proto__'' world_proto))) = [''A'']"
  by (simp add: logout_route_def delete_route_def initial_def env_ok_def sessions_world_abc
      sessions_world_proto registry_simps own_keys_def is_array_index_def is_digit_def)

subsection \<open>Removal followed by creation\<close>

lemma logout_route_answered:
  assumes "answered (fst (logout_route e k w))"
  shows "\<not> has_client (lookup (sessions (snd (logout_route e k w))) k)
    \<and> next_client (snd (logout_route e k w)) = next_client w"
  using assms
  by (cases "lookup (sessions w) k" rule: has_client.cases)
    (auto simp: logout_route_def Let_def lookup_assign_null split: option.splits)

lemma logout_route_rejected:
  assumes "\<not> answered (fst (logout_route e k w))"
  shows "has_client (lookup (sessions w) k)
    \<and> sessions (snd (logout_route e k w)) = sessions w"
  using assms
  by (cases "lookup (sessions w) k" rule: has_client.cases)
    (auto simp: logout_route_def Let_def split: option.splits)

lemma delete_route_succeeded:
  assumes "succeeded (fst (delete_route e k w))" and "k \<noteq> ''__proto__''"
  shows "\<not> has_client (lookup (sessions (snd (delete_route e k w))) k)
    \<and> next_client (snd (delete_route e k w)) = next_client w"
  using assms
  by (auto simp: delete_route_def Let_def not_has_client_delete_key split: option.splits)

text \<open>
  Claim C9, as the code has it. When the logout route has answered, or the delete route
  has answered success for an id other than \<^verbatim>\<open>__proto__\<close>, a following \<^verbatim>\<open>setupSession\<close> for
  the same id leaves a session with a new client, no QR payload and \<^verbatim>\<open>isReady = false\<close>,
  whatever the entry held before. When the logout route ended without an answer (the
  provider's \<^verbatim>\<open>logout\<close> or \<^verbatim>\<open>destroy\<close> rejected), the entry is as it was and
  \<^verbatim>\<open>setupSession\<close> keeps it; when the delete route answered an error, it changed nothing.
\<close>

theorem recreated_session_is_fresh:
  "(answered (fst (logout_route e k w)) \<longrightarrow>
      lookup (sessions (snd (setupSession e' k (snd (logout_route e k w))))) k =
        Some (Some \<lparr>client = next_client w, latestQR = None, isReady = False\<rparr>))
   \<and> (succeeded (fst (delete_route e k w)) \<and> k \<noteq> ''__proto__'' \<longrightarrow>
      lookup (sessions (snd (setupSession e' k (snd (delete_route e k w))))) k =
        Some (Some \<lparr>client = next_client w, latestQR = None, isReady = False\<rparr>))
   \<and> (\<not> answered (fst (logout_route e k w)) \<longrightarrow>
      has_client (lookup (sessions w) k)
      \<and> lookup (sessions (snd (setupSession e' k (snd (logout_route e k w))))) k
          = lookup (sessions w) k)
   \<and> (\<not> succeeded (fst (delete_route e k w)) \<longrightarrow> snd (delete_route e k w) = w)"
proof (intro conjI impI)
  assume "answered (fst (logout_route e k w))"
  from logout_route_answered [OF this]
  show "lookup (sessions (snd (setupSession e' k (snd (logout_route e k w))))) k =
        Some (Some \<lparr>client = next_client w, latestQR = None, isReady = False\<rparr>)"
    by (simp add: setupSession_fresh)
next
  assume "succeeded (fst (delete_route e k w)) \<and> k \<noteq> ''__proto__''"
  then have "\<not> has_client (lookup (sessions (snd (delete_route e k w))) k)
    \<and> next_client (snd (delete_route e k w)) = next_client w"
    by (simp add: delete_route_succeeded)
  then show "lookup (sessions (snd (setupSession e' k (snd (delete_route e k w))))) k =
        Some (Some \<lparr>client = next_client w, latestQR = None, isReady = False\<rparr>)"
    by (simp add: setupSession_fresh)
next
  assume r: "\<not> answered (fst (logout_route e k w))"
  from logout_route_rejected [OF r]
  show "has_client (lookup (sessions w) k)"
    by simp
  from logout_route_rejected [OF r]
  show "lookup (sessions (snd (setupSession e' k (snd (logout_route e k w))))) k
          = lookup (sessions w) k"
    by (simp add: setupSession_existing)
next
  assume "\<not> succeeded (fst (delete_route e k w))"
  then show "snd (delete_route e k w) = w"
    by (auto simp: delete_route_def Let_def split: option.splits)
qed

text \<open>A ready session that holds a QR payload, removed by either route and set up again;
  and the same session when the provider's logout rejects.\<close>

theorem recreated_session_is_fresh_witness:
  "answered (fst (logout_route env_ok ''A'' world_ready_qr))
   \<and> lookup (sessions (snd (setupSession env_ok ''A''
        (snd (logout_route env_ok ''A'' world_ready_qr))))) ''A''
      = Some (Some \<lparr>client = 1, latestQR = None, isReady = False\<rparr>)
   \<and> succeeded (fst (delete_route env_ok ''A'' world_ready_qr))
   \<and> lookup (sessions (snd (setupSession env_ok ''A''
        (snd (delete_route env_ok ''A'' world_ready_qr))))) ''A''
      = Some (Some \<lparr>client = 1, latestQR = None, isReady = False\<rparr>)
   \<and> \<not> answered (fst (logout_route env_logout_fails ''A'' world_ready_qr))
   \<and> lookup (sessions (snd (setupSession env_ok ''A''
        (snd (logout_route env_logout_fails ''A'' world_ready_qr))))) ''A''
      = lookup (sessions world_ready_qr) ''A''"
proof -
  have l: "answered (fst (logout_route env_ok ''A'' world_ready_qr))"
    by (simp add: logout_route_def sessions_world_ready_qr registry_simps env_ok_def)
  have d: "succeeded (fst (delete_route env_ok ''A'' world_ready_qr))"
    by (simp add: delete_route_def env_ok_def Let_def)
  have f: "\<not> answered (fst (logout_route env_logout_fails ''A'' world_ready_qr))"
    by (simp add: logout_route_def sessions_world_ready_qr registry_simps env_logout_fails_def
        env_ok_def)
  have n: "next_client world_ready_qr = 1"
    by (simp add: world_ready_qr_def setupSession_def setupSession_start_def initial_def
        env_ok_def on_ready_def on_qr_def on_qr_converted_def registry_simps)
  show ?thesis
    using l d f recreated_session_is_fresh [of env_ok "''A''" world_ready_qr env_ok]
      recreated_session_is_fresh [of env_logout_fails "''A''" world_ready_qr env_ok]
    by (simp add: n)
qed

text \<open>State carried over. The provider's logout rejects: the entry is kept and
  \<^verbatim>\<open>setupSession\<close> returns the old session, ready and with its QR payload. The delete route
  succeeds for the id \<^verbatim>\<open>__proto__\<close>: the session stays the prototype and \<^verbatim>\<open>setupSession\<close>
  returns it, still ready.\<close>

theorem removal_carries_state_counterexample:
  "fst (logout_route env_logout_fails ''A'' world_ready_qr) = Unhandled (Rejected ''logout failed'')
   \<and> lookup (sessions (snd (setupSession env_ok ''A''
        (snd (logout_route env_logout_fails ''A'' world_ready_qr))))) ''A''
      = Some (Some \<lparr>client = 0, latestQR = Some ''img'', isReady = True\<rparr>)
   \<and> fst (delete_route env_ok ''__proto__'' world_proto) = Success ''__proto__ session deleted''
   \<and> lookup (sessions (snd (setupSession env_ok ''__proto__''
        (snd (delete_route env_ok ''__proto__'' world_proto))))) ''__proto__''
      = Some (Some \<lparr>client = 0, latestQR = None, isReady = True\<rparr>)"
  by (simp add: logout_route_def delete_route_def setupSession_def setupSession_start_def
      env_logout_fails_def env_ok_def sessions_world_ready_qr sessions_world_proto
      registry_simps)

subsection \<open>Null entries\<close>

lemma null_entry_listed:
  assumes "map_of (own (sessions w)) k = Some None"
  shows "lookup (sessions w) k = Some None"
    and "k \<in> set (own_keys (sessions w))"
    and "(k, False, False) \<in> set (list_sessions w)"
    and "Failed k ''Session not ready'' \<in> set (fst (broadcast e number body w))"
    and "\<not> status w k"
proof -
  from assms show null: "lookup (sessions w) k = Some None"
    by (simp add: lookup_def js_get_def)
  from assms have "(k, None) \<in> set (own (sessions w))"
    by (rule map_of_SomeD)
  then have "k \<in> fst ` set (own (sessions w))"
    by force
  then show keys: "k \<in> set (own_keys (sessions w))"
    by (simp add: set_own_keys)
  from keys null show "(k, False, False) \<in> set (list_sessions w)"
    by (force simp: list_sessions_def)
  from keys have "k \<in> set (for_in_keys (sessions w))"
    by (simp add: for_in_keys_def)
  with null show "Failed k ''Session not ready'' \<in> set (fst (broadcast e number body w))"
    by (force simp: broadcast_def broadcast_during_def
        broadcast_loop_quiet [where ks = "for_in_keys (sessions w)" and w = w, OF subset_refl])
  from null show "\<not> status w k"
    by (simp add: status_def)
qed

lemma own_assign_null:
  "\<not> sets_prototype r k \<Longrightarrow> map_of (own (assign r k None)) k = Some None"
  by (simp add: assign_def update_conv')

text \<open>
  Claim C10, as the code has it. For every id other than \<^verbatim>\<open>__proto__\<close>: after a
  \<^verbatim>\<open>disconnected\<close> event for the id, and after a logout that answered success, the id is
  still a key of \<^verbatim>\<open>sessions\<close>, mapped to \<^verbatim>\<open>null\<close>: the session list has it with
  \<^verbatim>\<open>isReady = false\<close> and \<^verbatim>\<open>hasQR = false\<close>, a broadcast during which no other handler runs
  answers \<^verbatim>\<open>Session not ready\<close> for it, its status is not ready, and a following
  \<^verbatim>\<open>setupSession\<close> constructs a new client and stores a fresh session. For the id
  \<^verbatim>\<open>__proto__\<close>, when the assignment of \<^verbatim>\<open>null\<close> goes to the prototype, no key is left: the
  prototype is removed and the id reads as absent.
\<close>

theorem disconnected_keeps_null_entry:
  "(k \<noteq> ''__proto__'' \<longrightarrow>
      (let w' = snd (on_disconnected k w) in
         lookup (sessions w') k = Some None
         \<and> k \<in> set (own_keys (sessions w'))
         \<and> (k, False, False) \<in> set (list_sessions w')
         \<and> Failed k ''Session not ready'' \<in> set (fst (broadcast e number body w'))
         \<and> \<not> status w' k
         \<and> fst (setupSession_start k w') = Some (next_client w)
         \<and> lookup (sessions (snd (setupSession e k w'))) k =
             Some (Some \<lparr>client = next_client w, latestQR = None, isReady = False\<rparr>)))
   \<and> (k \<noteq> ''__proto__'' \<and> succeeded (fst (logout_route e k w)) \<longrightarrow>
        (let w' = snd (logout_route e k w) in
           lookup (sessions w') k = Some None
           \<and> k \<in> set (own_keys (sessions w'))
           \<and> (k, False, False) \<in> set (list_sessions w')
           \<and> Failed k ''Session not ready'' \<in> set (fst (broadcast e number body w'))
           \<and> \<not> status w' k
           \<and> fst (setupSession_start k w') = Some (next_client w)
           \<and> lookup (sessions (snd (setupSession e k w'))) k =
               Some (Some \<lparr>client = next_client w, latestQR = None, isReady = False\<rparr>)))
   \<and> (sets_prototype (sessions w) k \<longrightarrow>
        (let w' = snd (on_disconnected k w) in
           sessions w' = (sessions w)\<lparr>prototype := NullProto\<rparr>
           \<and> lookup (sessions w') k = None
           \<and> k \<notin> set (own_keys (sessions w'))))"
proof -
  have facts: "lookup (sessions w') k = Some None
      \<and> k \<in> set (own_keys (sessions w'))
      \<and> (k, False, False) \<in> set (list_sessions w')
      \<and> Failed k ''Session not ready'' \<in> set (fst (broadcast e number body w'))
      \<and> \<not> status w' k
      \<and> fst (setupSession_start k w') = Some (next_client w)
      \<and> lookup (sessions (snd (setupSession e k w'))) k =
          Some (Some \<lparr>client = next_client w, latestQR = None, isReady = False\<rparr>)"
    if null: "map_of (own (sessions w')) k = Some None" and nc: "next_client w' = next_client w"
    for w'
  proof -
    note listed = null_entry_listed [OF null]
    from listed(1) have "\<not> has_client (lookup (sessions w') k)"
      by simp
    then have "fst (setupSession_start k w') = Some (next_client w)"
      and "lookup (sessions (snd (setupSession e k w'))) k =
          Some (Some \<lparr>client = next_client w, latestQR = None, isReady = False\<rparr>)"
      using nc by (simp_all add: setupSession_start_def Let_def setupSession_fresh)
    with listed(1,2,3,5) listed(4) [of e number body] show ?thesis
      by simp
  qed
  have plain: "\<not> sets_prototype (sessions w) k" if "k \<noteq> ''__proto__''"
    using that by (simp add: sets_prototype_def)
  have dis: "map_of (own (sessions (snd (on_disconnected k w)))) k = Some None
      \<and> next_client (snd (on_disconnected k w)) = next_client w"
    if "k \<noteq> ''__proto__''"
    using plain [OF that] by (simp add: on_disconnected_def own_assign_null)
  have out: "map_of (own (sessions (snd (logout_route e k w)))) k = Some None
      \<and> next_client (snd (logout_route e k w)) = next_client w"
    if "k \<noteq> ''__proto__'' \<and> succeeded (fst (logout_route e k w))"
    using that plain [of ]
    by (cases "lookup (sessions w) k" rule: has_client.cases)
      (auto simp: logout_route_def Let_def own_assign_null split: option.splits)
  have protoc: "sessions (snd (on_disconnected k w)) = (sessions w)\<lparr>prototype := NullProto\<rparr>
           \<and> lookup (sessions (snd (on_disconnected k w))) k = None
           \<and> k \<notin> set (own_keys (sessions (snd (on_disconnected k w))))"
    if "sets_prototype (sessions w) k"
  proof -
    from that have s: "sessions (snd (on_disconnected k w)) = (sessions w)\<lparr>prototype := NullProto\<rparr>"
      by (simp add: on_disconnected_def assign_def)
    from that have o: "map_of (own (sessions w)) k = None"
      by (auto simp: sets_prototype_def)
    then have "k \<notin> fst ` set (own (sessions w))"
      by (simp add: map_of_eq_None_iff)
    with o s show ?thesis
      by (simp add: set_own_keys lookup_def js_get_def inherited_def)
  qed
  from facts dis out protoc show ?thesis
    unfolding Let_def by blast
qed

text \<open>Session A after a successful logout, session C after a \<^verbatim>\<open>disconnected\<close> event, and
  the session \<^verbatim>\<open>__proto__\<close> after a \<^verbatim>\<open>disconnected\<close> event.\<close>

theorem disconnected_keeps_null_entry_witness:
  "succeeded (fst (logout_route env_ok ''A'' world_abc))
   \<and> lookup (sessions (snd (logout_route env_ok ''A'' world_abc))) ''A'' = Some None
   \<and> (''A'', False, False) \<in> set (list_sessions (snd (logout_route env_ok ''A'' world_abc)))
   \<and> Failed ''A'' ''Session not ready''
       \<in> set (fst (broadcast env_ok ''5'' ''hi'' (snd (logout_route env_ok ''A'' world_abc))))
   \<and> lookup (sessions (snd (on_disconnected ''C'' world_abc))) ''C'' = Some None
   \<and> (''C'', False, False) \<in> set (list_sessions (snd (on_disconnected ''C'' world_abc)))
   \<and> sets_prototype (sessions world_proto) ''__proto__''
   \<and> lookup (sessions (snd (on_disconnected ''__proto__'' world_proto))) ''__proto__'' = None"
proof -
  have l: "succeeded (fst (logout_route env_ok ''A'' world_abc))"
    by (simp add: logout_route_def sessions_world_abc registry_simps env_ok_def)
  have p: "sets_prototype (sessions world_proto) ''__proto__''"
    by (simp add: sessions_world_proto sets_prototype_def)
  from l disconnected_keeps_null_entry [of "''A''" world_abc env_ok "''5''" "''hi''"]
  have A: "lookup (sessions (snd (logout_route env_ok ''A'' world_abc))) ''A'' = Some None
   \<and> (''A'', False, False) \<in> set (list_sessions (snd (logout_route env_ok ''A'' world_abc)))
   \<and> Failed ''A'' ''Session not ready''
       \<in> set (fst (broadcast env_ok ''5'' ''hi'' (snd (logout_route env_ok ''A'' world_abc))))"
    by (simp add: Let_def)
  from disconnected_keeps_null_entry [of "''C''" world_abc env_ok "''5''" "''hi''"]
  have C: "lookup (sessions (snd (on_disconnected ''C'' world_abc))) ''C'' = Some None
   \<and> (''C'', False, False) \<in> set (list_sessions (snd (on_disconnected ''C'' world_abc)))"
    by (simp add: Let_def)
  note P = disconnected_keeps_null_entry
    [of "''__proto__''" world_proto env_ok "''5''" "''hi''",
      THEN conjunct2, THEN conjunct2, THEN mp, OF p, unfolded Let_def,
      THEN conjunct2, THEN conjunct1]
  from l p A C P show ?thesis
    by (intro conjI) simp_all
qed

text \<open>The ready session \<^verbatim>\<open>__proto__\<close> is disconnected: no key is left for it, the session
  list and a broadcast have only session A.\<close>

theorem disconnected_proto_counterexample:
  "lookup (sessions (snd (on_disconnected ''__proto__'' world_proto))) ''__proto__'' = None
   \<and> list_sessions (snd (on_disconnected ''__proto__'' world_proto)) = [(''A'', False, False)]
   \<and> fst (broadcast env_ok ''5'' ''hi'' (snd (on_disconnected ''__proto__'' world_proto)))
       = [Failed ''A'' ''Session not ready'']"
  by (simp add: on_disconnected_def list_sessions_def broadcast_def broadcast_during_def
      sessions_world_proto registry_simps for_in_keys_def own_keys_def is_array_index_def
      is_digit_def)

end
